theory Spec2Isabelle
  imports Complex_Main
begin

section \<open>The session layer of the epics module (lib/__init__.py)\<close>

text \<open>
  The module keeps two process-wide dictionaries, \<open>_Cache\<close> and \<open>_Monitors\<close>, and
  offers \<open>caput\<close>, \<open>caget\<close>, \<open>cainfo\<close>, \<open>camonitor\<close> and \<open>camonitor_clear\<close> on top of the
  private resolver \<open>__createPV\<close>. Everything the functions touch is made explicit here:
  the two dictionaries, the PV objects they refer to (an object store indexed by
  reference), the text written to \<open>sys.stdout\<close>, the text handed to user writers, and the
  wall clock read by \<open>time.time()\<close> and advanced by \<open>time.sleep\<close>.

  Times are real numbers of seconds. Time passes in \<open>time.sleep\<close> only: \<open>time.sleep(d)\<close>
  suspends for at least \<open>d\<close>, and how much longer a sleep really lasts is decided by the
  environment.
\<close>

subsection \<open>Values, writers and callbacks\<close>

datatype pyval = PyNone | PyInt int | PyStr string

text \<open>A writer is \<open>sys.stdout.write\<close> or a callable supplied by the caller (numbered).\<close>

datatype writer = StdoutWrite | UserWriter nat

text \<open>
  A callback is the closure \<open>camonitor\<close> builds around a writer (the "generic monitor
  callback") or a callable supplied by the caller (numbered).
\<close>

datatype callback = GenericCallback writer | UserCallback nat

text \<open>The one exception the module itself can raise: a method call on \<open>None\<close>.\<close>

datatype py_error = AttributeError

subsection \<open>PV objects and the world outside\<close>

text \<open>Every method call made on a PV object is logged on the object, in order.\<close>

datatype pv_call =
    Connect
  | Get
  | GetAsString
  | GetCtrlvars
  | Put pyval bool real
  | AddCallback callback
  | ClearCallbacks

record pv_obj =
  pv_name :: string
  calls :: "pv_call list"

text \<open>
  The environment is what the module does not decide: whether the channel of a name is up
  at a given time, by how much a \<open>time.sleep\<close> begun at a given time overshoots the time
  asked for, the values and strings the PV class hands back, the time format of
  \<open>pv.fmt_time()\<close> and Python's \<open>repr\<close>.
\<close>

record env =
  link :: "string \<Rightarrow> real \<Rightarrow> bool"
  oversleep :: "real \<Rightarrow> real"
  get_value :: "string \<Rightarrow> real \<Rightarrow> pyval"
  get_string :: "string \<Rightarrow> real \<Rightarrow> string"
  put_result :: "string \<Rightarrow> pyval \<Rightarrow> bool \<Rightarrow> real \<Rightarrow> pyval"
  info_string :: "string \<Rightarrow> string"
  fmt_time :: "real \<Rightarrow> string"
  repr :: "pyval \<Rightarrow> string"

text \<open>
  The module's state. \<open>Monitors\<close> maps a name to whatever \<open>camonitor\<close> stored, which is a
  PV reference or Python's \<open>None\<close>; hence the inner option.
\<close>

record state =
  Cache :: "string \<rightharpoonup> nat"
  Monitors :: "string \<rightharpoonup> nat option"
  heap :: "nat \<Rightarrow> pv_obj"
  next_ref :: nat
  stdout :: "string list"
  sinks :: "nat \<Rightarrow> string list"
  clock :: real

definition newline :: string where
  "newline = [CHR 0x0A]"

text \<open>
  \<open>time.sleep(d)\<close>: the calling thread is suspended for \<open>d\<close> seconds or longer. A negative
  overshoot of the environment counts as none.
\<close>

definition sleep :: "env \<Rightarrow> real \<Rightarrow> state \<Rightarrow> state" where
  "sleep e d s = s\<lparr>clock := clock s + d + max 0 (oversleep e (clock s))\<rparr>"

definition write_stdout :: "string \<Rightarrow> state \<Rightarrow> state" where
  "write_stdout txt s = s\<lparr>stdout := stdout s @ [txt]\<rparr>"

definition call_writer :: "writer \<Rightarrow> string \<Rightarrow> state \<Rightarrow> state" where
  "call_writer w txt s =
     (case w of
        StdoutWrite \<Rightarrow> write_stdout txt s
      | UserWriter i \<Rightarrow> s\<lparr>sinks := (sinks s)(i := sinks s i @ [txt])\<rparr>)"

subsection \<open>The PV class\<close>

text \<open>
  Modelled from the spec: the class \<open>pv.PV\<close> (lib/pv.py) is not among the sources. The
  spec's collaborator contract gives its surface: \<open>connect()\<close> is non-blocking,
  \<open>connected\<close> is an observable flag, \<open>get()\<close> and \<open>get(as_string=True)\<close> return a value
  and a formatted string, \<open>get_ctrlvars()\<close> fetches metadata, \<open>put\<close> returns a result,
  \<open>add_callback(fn)\<close> subscribes a callback and \<open>clear_callbacks()\<close> detaches the
  callbacks, and \<open>info\<close> is a status string. Each method logs its call on the object.
  What \<open>add_callback\<close> does with callbacks subscribed earlier (keep them or replace
  them) is not said there, so the model keeps the log of the calls and no more.
\<close>

definition PV :: "string \<Rightarrow> state \<Rightarrow> nat \<times> state" where
  "PV pvname s =
     (next_ref s,
      s\<lparr>heap := (heap s)(next_ref s := \<lparr>pv_name = pvname, calls = []\<rparr>),
        next_ref := Suc (next_ref s)\<rparr>)"

definition log_call :: "nat \<Rightarrow> pv_call \<Rightarrow> state \<Rightarrow> state" where
  "log_call h c s = s\<lparr>heap := (heap s)(h := (heap s h)\<lparr>calls := calls (heap s h) @ [c]\<rparr>)\<rparr>"

definition pv_connect :: "nat \<Rightarrow> state \<Rightarrow> state" where
  "pv_connect h s = log_call h Connect s"

definition pv_connected :: "env \<Rightarrow> nat \<Rightarrow> state \<Rightarrow> bool" where
  "pv_connected e h s \<longleftrightarrow> Connect \<in> set (calls (heap s h)) \<and> link e (pv_name (heap s h)) (clock s)"

definition pv_get :: "env \<Rightarrow> nat \<Rightarrow> bool \<Rightarrow> state \<Rightarrow> pyval \<times> state" where
  "pv_get e h as_string s =
     (if as_string
      then (PyStr (get_string e (pv_name (heap s h)) (clock s)), log_call h GetAsString s)
      else (get_value e (pv_name (heap s h)) (clock s), log_call h Get s))"

definition pv_get_ctrlvars :: "nat \<Rightarrow> state \<Rightarrow> state" where
  "pv_get_ctrlvars h s = log_call h GetCtrlvars s"


definition pv_info :: "env \<Rightarrow> nat \<Rightarrow> state \<Rightarrow> string" where
  "pv_info e h s = info_string e (pv_name (heap s h))"

definition pv_add_callback :: "nat \<Rightarrow> callback \<Rightarrow> state \<Rightarrow> state" where
  "pv_add_callback h cb s = log_call h (AddCallback cb) s"

definition pv_clear_callbacks :: "nat \<Rightarrow> state \<Rightarrow> state" where
  "pv_clear_callbacks h s = log_call h ClearCallbacks s"

subsection \<open>The resolver \<open>__createPV\<close>\<close>

text \<open>
  The polling loop of \<open>__createPV\<close>:
  \<^verbatim>\<open>
    while not thispv.connected:
        time.sleep(1.e-3)
        if time.time()-start_time > timeout:
            break
  \<close>
\<close>

function wait_connected :: "env \<Rightarrow> nat \<Rightarrow> real \<Rightarrow> real \<Rightarrow> state \<Rightarrow> state" where
  "wait_connected e thispv start_time timeout s =
     (if \<not> pv_connected e thispv s
      then (let s1 = sleep e (1 / 1000) s
            in if clock s1 - start_time > timeout then s1
               else wait_connected e thispv start_time timeout s1)
      else s)"
  by pat_completeness auto
termination
proof (relation "measure (\<lambda>(e, thispv, start_time, timeout, s).
                   nat \<lceil>(start_time + timeout - clock s) * 1000\<rceil>)", goal_cases)
  case 1
  show ?case by simp
next
  case (2 e thispv start_time timeout s x)
  have adv: "clock s + 1 / 1000 \<le> clock x"
    using 2 by (simp add: sleep_def)
  have stay: "clock x - start_time \<le> timeout"
    using 2 by simp
  have low: "0 \<le> (start_time + timeout - clock x) * 1000"
    using stay by simp
  have up: "(start_time + timeout - clock x) * 1000 \<le> (start_time + timeout - clock s) * 1000 - 1"
    using adv by (simp add: algebra_simps)
  have "\<lceil>(start_time + timeout - clock x) * 1000\<rceil>
      \<le> \<lceil>(start_time + timeout - clock s) * 1000 - 1\<rceil>"
    using up by (rule ceiling_mono)
  moreover have "0 \<le> \<lceil>(start_time + timeout - clock x) * 1000\<rceil>"
    using low by simp
  ultimately have "nat \<lceil>(start_time + timeout - clock x) * 1000\<rceil>
      < nat \<lceil>(start_time + timeout - clock s) * 1000\<rceil>"
    by (simp only: ceiling_diff_one)
  then show ?case
    by (simp only: in_measure prod.case)
qed

definition createPV :: "env \<Rightarrow> string \<Rightarrow> real \<Rightarrow> state \<Rightarrow> nat option \<times> state" where
  "createPV e pvname timeout s =
     (case Cache s pvname of
        Some cached \<Rightarrow> (Some cached, s)
      | None \<Rightarrow>
          (let start_time = clock s;
               (thispv, s1) = PV pvname s;
               s2 = pv_connect thispv s1;
               s3 = wait_connected e thispv start_time timeout s2
           in if \<not> pv_connected e thispv s3
              then (None, write_stdout (''cannot connect to '' @ pvname @ newline) s3)
              else (Some thispv, s3\<lparr>Cache := (Cache s3)(pvname \<mapsto> thispv)\<rparr>)))"

subsection \<open>The public functions\<close>


definition caget :: "env \<Rightarrow> string \<Rightarrow> bool \<Rightarrow> state \<Rightarrow> pyval \<times> state" where
  "caget e pvname as_string s =
     (let (thispv, s1) = createPV e pvname 5 s
      in case thispv of
           Some h \<Rightarrow>
             (let (val, s2) = pv_get e h False s1;
                  s3 = sleep e (1 / 1000) s2
              in if as_string
                 then (let s4 = pv_get_ctrlvars h s3;
                           s5 = sleep e (1 / 1000) s4
                       in pv_get e h True s5)
                 else (val, s3))
         | None \<Rightarrow> (PyNone, s1))"

definition cainfo :: "env \<Rightarrow> string \<Rightarrow> bool \<Rightarrow> state \<Rightarrow> pyval \<times> state" where
  "cainfo e pvname print_out s =
     (let (thispv, s1) = createPV e pvname 5 s
      in case thispv of
           Some h \<Rightarrow>
             (let s2 = snd (pv_get e h False s1);
                  s3 = pv_get_ctrlvars h s2
              in if print_out
                 then (PyNone, write_stdout (pv_info e h s3 @ newline) s3)
                 else (PyStr (pv_info e h s3), s3))
         | None \<Rightarrow> (PyNone, s1))"

definition camonitor_clear :: "string \<Rightarrow> state \<Rightarrow> py_error + state" where
  "camonitor_clear pvname s =
     (case Monitors s pvname of
        None \<Rightarrow> Inr s
      | Some None \<Rightarrow> Inl AttributeError
      | Some (Some h) \<Rightarrow> Inr (pv_clear_callbacks h s))"

text \<open>
  The generic monitor callback. Its \<open>pvname\<close> and \<open>char_value\<close> are keyword arguments that
  default to \<open>None\<close>; \<open>%.32s\<close> prints at most the first 32 characters of \<open>str(pvname)\<close>.
\<close>

definition str_of :: "string option \<Rightarrow> string" where
  "str_of x = (case x of None \<Rightarrow> ''None'' | Some txt \<Rightarrow> txt)"

definition generic_callback ::
    "env \<Rightarrow> writer \<Rightarrow> string option \<Rightarrow> pyval \<Rightarrow> string option \<Rightarrow> state \<Rightarrow> state" where
  "generic_callback e w pvname v char_value s =
     (let char_value1 = (case char_value of None \<Rightarrow> repr e v | Some txt \<Rightarrow> txt)
      in call_writer w (take 32 (str_of pvname) @ '' '' @ fmt_time e (clock s) @ '' '' @ char_value1
                  @ newline) s)"

definition camonitor :: "env \<Rightarrow> string \<Rightarrow> writer option \<Rightarrow> nat option \<Rightarrow> state \<Rightarrow> state" where
  "camonitor e pvname writer cb s =
     (let writer1 = (case writer of None \<Rightarrow> StdoutWrite | Some w \<Rightarrow> w);
          callback1 = (case cb of None \<Rightarrow> GenericCallback writer1 | Some c \<Rightarrow> UserCallback c);
          (thispv, s1) = createPV e pvname 5 s;
          s2 = s1\<lparr>Monitors := (Monitors s1)(pvname := Some thispv)\<rparr>
      in case thispv of
           Some h \<Rightarrow> pv_add_callback h callback1 (snd (pv_get e h False s2))
         | None \<Rightarrow> s2)"

subsection \<open>Observations used in the statements\<close>

text \<open>The start of the process: both dictionaries empty, no PV object, nothing written.\<close>

definition init_state :: state where
  "init_state =
     \<lparr>Cache = Map.empty, Monitors = Map.empty,
      heap = (\<lambda>_. \<lparr>pv_name = [], calls = []\<rparr>), next_ref = 0,
      stdout = [], sinks = (\<lambda>_. []), clock = 0\<rparr>"



text \<open>
  A world in which no channel ever comes up and every sleep is exact, and one in which every
  channel is up.
\<close>

definition dead_env :: env where
  "dead_env =
     \<lparr>link = (\<lambda>_ _. False), oversleep = (\<lambda>_. 0), get_value = (\<lambda>_ _. PyInt 0), get_string = (\<lambda>_ _. ''0''),
      put_result = (\<lambda>_ _ _ _. PyInt 1), info_string = (\<lambda>name. ''== '' @ name),
      fmt_time = (\<lambda>_. ''12:00:00''), repr = (\<lambda>_. ''0'')\<rparr>"

definition live_env :: env where
  "live_env = dead_env\<lparr>link := (\<lambda>_ _. True)\<rparr>"

text \<open>A world in which every channel comes up three milliseconds after the start.\<close>

definition late_env :: env where
  "late_env = dead_env\<lparr>link := (\<lambda>_ t. 3 / 1000 \<le> t)\<rparr>"

text \<open>A world in which no channel comes up and every sleep lasts 14 milliseconds too long.\<close>

definition slow_env :: env where
  "slow_env = dead_env\<lparr>oversleep := (\<lambda>_. 14 / 1000)\<rparr>"

section \<open>The polling loop\<close>

declare wait_connected.simps [simp del]

lemma wait_connected_frame:
  "\<exists>c. wait_connected e h st tmo s = s\<lparr>clock := c\<rparr>"
proof (induction e h st tmo s rule: wait_connected.induct)
  case (1 e h st tmo s)
  show ?case
  proof (cases "pv_connected e h s")
    case True
    then have "wait_connected e h st tmo s = s\<lparr>clock := clock s\<rparr>"
      by (subst wait_connected.simps) simp
    then show ?thesis by blast
  next
    case nc: False
    show ?thesis
    proof (cases "clock (sleep e (1 / 1000) s) - st > tmo")
      case True
      with nc have "wait_connected e h st tmo s
          = s\<lparr>clock := clock s + 1 / 1000 + max 0 (oversleep e (clock s))\<rparr>"
        by (subst wait_connected.simps) (simp add: sleep_def)
      then show ?thesis by blast
    next
      case False
      with nc 1 obtain c where
        "wait_connected e h st tmo (sleep e (1 / 1000) s) = (sleep e (1 / 1000) s)\<lparr>clock := c\<rparr>"
        by blast
      with nc False have "wait_connected e h st tmo s = s\<lparr>clock := c\<rparr>"
        by (subst wait_connected.simps) (simp add: sleep_def)
      then show ?thesis by blast
    qed
  qed
qed

lemma wait_connected_fields [simp]:
  "Cache (wait_connected e h st tmo s) = Cache s"
  "Monitors (wait_connected e h st tmo s) = Monitors s"
  "heap (wait_connected e h st tmo s) = heap s"
  "next_ref (wait_connected e h st tmo s) = next_ref s"
  "stdout (wait_connected e h st tmo s) = stdout s"
  "sinks (wait_connected e h st tmo s) = sinks s"
  using wait_connected_frame [of e h st tmo s] by auto

lemma sleep_clock_lower: "clock s + d \<le> clock (sleep e d s)"
  by (simp add: sleep_def)

lemma sleep_clock_upper: "oversleep e (clock s) \<le> eps \<Longrightarrow> 0 \<le> eps \<Longrightarrow> clock (sleep e d s) \<le> clock s + d + eps"
  by (simp add: sleep_def)

lemma wait_connected_clock_lower:
  "clock s \<le> clock (wait_connected e h st tmo s)"
proof (induction e h st tmo s rule: wait_connected.induct)
  case (1 e h st tmo s)
  have adv: "clock s \<le> clock (sleep e (1 / 1000) s)"
    using sleep_clock_lower [of s "1 / 1000" e] by simp
  show ?case
  proof (cases "pv_connected e h s")
    case True
    then show ?thesis by (subst wait_connected.simps) simp
  next
    case nc: False
    show ?thesis
    proof (cases "clock (sleep e (1 / 1000) s) - st > tmo")
      case True
      with nc adv show ?thesis by (subst wait_connected.simps) simp
    next
      case False
      with nc 1 have "clock (sleep e (1 / 1000) s)
          \<le> clock (wait_connected e h st tmo (sleep e (1 / 1000) s))"
        by blast
      with nc False adv show ?thesis
        by (subst wait_connected.simps) simp
    qed
  qed
qed

lemma wait_connected_clock_upper:
  "0 \<le> eps \<Longrightarrow> \<forall>t. oversleep e t \<le> eps \<Longrightarrow> clock s \<le> st + max 0 tmo \<Longrightarrow>
   clock (wait_connected e h st tmo s) \<le> st + max 0 tmo + 1 / 1000 + eps"
proof (induction e h st tmo s rule: wait_connected.induct)
  case (1 e h st tmo s)
  have nap: "clock (sleep e (1 / 1000) s) \<le> clock s + 1 / 1000 + eps"
    using sleep_clock_upper [of e s eps "1 / 1000"] 1(2,3) by simp
  show ?case
  proof (cases "pv_connected e h s")
    case True
    with 1(2,4) show ?thesis by (subst wait_connected.simps) simp
  next
    case nc: False
    show ?thesis
    proof (cases "clock (sleep e (1 / 1000) s) - st > tmo")
      case True
      with nc 1(4) nap show ?thesis by (subst wait_connected.simps) simp
    next
      case False
      then have "clock (sleep e (1 / 1000) s) \<le> st + max 0 tmo" by simp
      with nc False 1(1) [OF nc refl False 1(2,3)]
      have "clock (wait_connected e h st tmo (sleep e (1 / 1000) s))
          \<le> st + max 0 tmo + 1 / 1000 + eps"
        by blast
      with nc False show ?thesis
        by (subst wait_connected.simps) simp
    qed
  qed
qed

lemma wait_connected_exit:
  "pv_connected e h (wait_connected e h st tmo s) \<or> clock (wait_connected e h st tmo s) - st > tmo"
proof (induction e h st tmo s rule: wait_connected.induct)
  case (1 e h st tmo s)
  show ?case
  proof (cases "pv_connected e h s")
    case True
    then show ?thesis by (subst wait_connected.simps, subst wait_connected.simps) simp
  next
    case nc: False
    show ?thesis
    proof (cases "clock (sleep e (1 / 1000) s) - st > tmo")
      case True
      with nc show ?thesis by (subst wait_connected.simps, subst wait_connected.simps) simp
    next
      case False
      with nc have eq: "wait_connected e h st tmo s = wait_connected e h st tmo (sleep e (1 / 1000) s)"
        by (subst wait_connected.simps) simp
      from nc False 1 show ?thesis unfolding eq by blast
    qed
  qed
qed



section \<open>The resolver\<close>

lemma createPV_cached:
  "Cache s n = Some h \<Longrightarrow> createPV e n tmo s = (Some h, s)"
  by (simp add: createPV_def)

lemma pv_connected_fresh:
  "heap s h = \<lparr>pv_name = n, calls = [Connect]\<rparr> \<Longrightarrow>
   pv_connected e h s = link e n (clock s)"
  by (simp add: pv_connected_def)

lemma createPV_miss_frame:
  assumes "Cache s n = None"
  shows "Monitors (snd (createPV e n tmo s)) = Monitors s"
    and "heap (snd (createPV e n tmo s)) =
           (heap s)(next_ref s := \<lparr>pv_name = n, calls = [Connect]\<rparr>)"
    and "next_ref (snd (createPV e n tmo s)) = Suc (next_ref s)"
    and "sinks (snd (createPV e n tmo s)) = sinks s"
  using assms
  by (simp_all add: createPV_def PV_def pv_connect_def log_call_def write_stdout_def Let_def)

lemma createPV_miss_clock:
  assumes "Cache s n = None"
  shows "clock s \<le> clock (snd (createPV e n tmo s))"
    and "0 \<le> eps \<Longrightarrow> \<forall>t. oversleep e t \<le> eps \<Longrightarrow>
         clock (snd (createPV e n tmo s)) \<le> clock s + max 0 tmo + 1 / 1000 + eps"
proof -
  define s2 where "s2 = pv_connect (next_ref s) (snd (PV n s))"
  have c2: "clock s2 = clock s"
    by (simp add: s2_def PV_def pv_connect_def log_call_def)
  have eq: "clock (snd (createPV e n tmo s)) = clock (wait_connected e (next_ref s) (clock s) tmo s2)"
    using assms by (simp add: createPV_def PV_def s2_def write_stdout_def Let_def)
  show "clock s \<le> clock (snd (createPV e n tmo s))"
    using wait_connected_clock_lower [of s2 e "next_ref s" "clock s" tmo] c2 eq by simp
  assume eps: "0 \<le> eps" "\<forall>t. oversleep e t \<le> eps"
  have "clock s2 \<le> clock s + max 0 tmo" using c2 by simp
  from wait_connected_clock_upper [OF eps this] eq
  show "clock (snd (createPV e n tmo s)) \<le> clock s + max 0 tmo + 1 / 1000 + eps" by simp
qed

lemma createPV_miss_up:
  assumes "Cache s n = None" and "link e n (clock (snd (createPV e n tmo s)))"
  shows "fst (createPV e n tmo s) = Some (next_ref s)"
    and "Cache (snd (createPV e n tmo s)) = (Cache s)(n \<mapsto> next_ref s)"
    and "stdout (snd (createPV e n tmo s)) = stdout s"
proof -
  define s2 where "s2 = pv_connect (next_ref s) (snd (PV n s))"
  define s3 where "s3 = wait_connected e (next_ref s) (clock s) tmo s2"
  have h3: "heap s3 (next_ref s) = \<lparr>pv_name = n, calls = [Connect]\<rparr>"
    by (simp add: s3_def s2_def PV_def pv_connect_def log_call_def)
  have other: "Cache s3 = Cache s" "stdout s3 = stdout s"
    by (simp_all add: s3_def s2_def PV_def pv_connect_def log_call_def)
  have unf: "createPV e n tmo s =
      (if \<not> pv_connected e (next_ref s) s3
       then (None, write_stdout (''cannot connect to '' @ n @ newline) s3)
       else (Some (next_ref s), s3\<lparr>Cache := (Cache s3)(n \<mapsto> next_ref s)\<rparr>))"
    using assms(1) by (simp add: createPV_def PV_def s2_def s3_def Let_def)
  have ck: "clock (snd (createPV e n tmo s)) = clock s3"
    by (simp add: unf write_stdout_def)
  have conn: "pv_connected e (next_ref s) s3"
    using assms(2) by (simp add: pv_connected_fresh [OF h3] ck)
  show "fst (createPV e n tmo s) = Some (next_ref s)"
    and "Cache (snd (createPV e n tmo s)) = (Cache s)(n \<mapsto> next_ref s)"
    and "stdout (snd (createPV e n tmo s)) = stdout s"
    using conn other by (simp_all add: unf)
qed

lemma createPV_miss_down:
  assumes "Cache s n = None" and "\<not> link e n (clock (snd (createPV e n tmo s)))"
  shows "fst (createPV e n tmo s) = None"
    and "Cache (snd (createPV e n tmo s)) = Cache s"
    and "stdout (snd (createPV e n tmo s)) = stdout s @ [''cannot connect to '' @ n @ newline]"
    and "tmo < clock (snd (createPV e n tmo s)) - clock s"
proof -
  define s2 where "s2 = pv_connect (next_ref s) (snd (PV n s))"
  define s3 where "s3 = wait_connected e (next_ref s) (clock s) tmo s2"
  have h3: "heap s3 (next_ref s) = \<lparr>pv_name = n, calls = [Connect]\<rparr>"
    by (simp add: s3_def s2_def PV_def pv_connect_def log_call_def)
  have other: "Cache s3 = Cache s" "stdout s3 = stdout s"
    by (simp_all add: s3_def s2_def PV_def pv_connect_def log_call_def)
  have unf: "createPV e n tmo s =
      (if \<not> pv_connected e (next_ref s) s3
       then (None, write_stdout (''cannot connect to '' @ n @ newline) s3)
       else (Some (next_ref s), s3\<lparr>Cache := (Cache s3)(n \<mapsto> next_ref s)\<rparr>))"
    using assms(1) by (simp add: createPV_def PV_def s2_def s3_def Let_def)
  have ck: "clock (snd (createPV e n tmo s)) = clock s3"
    by (simp add: unf write_stdout_def)
  have conn: "\<not> pv_connected e (next_ref s) s3"
    using assms(2) by (simp add: pv_connected_fresh [OF h3] ck)
  show "fst (createPV e n tmo s) = None"
    and "Cache (snd (createPV e n tmo s)) = Cache s"
    and "stdout (snd (createPV e n tmo s)) = stdout s @ [''cannot connect to '' @ n @ newline]"
    using conn other by (simp_all add: unf write_stdout_def)
  from wait_connected_exit [of e "next_ref s" "clock s" tmo s2] conn
  show "tmo < clock (snd (createPV e n tmo s)) - clock s"
    by (simp add: ck s3_def)
qed

text \<open>No channel of the name comes up in the window the polling loop can observe.\<close>

lemma createPV_unreachable:
  assumes "Cache s n = None" and "0 \<le> eps" and "\<forall>t. oversleep e t \<le> eps"
    and "\<forall>t. clock s \<le> t \<and> t \<le> clock s + max 0 tmo + 1 / 1000 + eps \<longrightarrow> \<not> link e n t"
  shows "\<not> link e n (clock (snd (createPV e n tmo s)))"
  using assms(4) createPV_miss_clock(1) [OF assms(1), of e tmo]
    createPV_miss_clock(2) [OF assms(1) assms(2,3), of tmo]
  by blast


lemma createPV_Some_stdout:
  assumes "fst (createPV e n tmo s) = Some h"
  shows "stdout (snd (createPV e n tmo s)) = stdout s"
proof (cases "Cache s n")
  case (Some c)
  then show ?thesis by (simp add: createPV_cached)
next
  case None
  show ?thesis
  proof (cases "link e n (clock (snd (createPV e n tmo s)))")
    case True
    from createPV_miss_up [OF None True] show ?thesis by simp
  next
    case False
    from createPV_miss_down(1) [OF None False] assms show ?thesis by simp
  qed
qed


section \<open>Concrete runs\<close>

lemmas concrete_defs =
  createPV_def PV_def pv_connect_def log_call_def init_state_def late_env_def live_env_def
  dead_env_def wait_connected.simps pv_connected_def sleep_def write_stdout_def Let_def

lemma createPV_live_init:
  "createPV live_env ''xx.VAL'' 5 init_state =
     (Some 0, init_state\<lparr>heap := (heap init_state)(0 := \<lparr>pv_name = ''xx.VAL'', calls = [Connect]\<rparr>),
                next_ref := Suc 0, Cache := [''xx.VAL'' \<mapsto> 0]\<rparr>)"
  by (simp add: concrete_defs)

lemma camonitor_unreachable_entry:
  assumes "Cache s name = None" and "0 \<le> eps" and "\<forall>t. oversleep e t \<le> eps"
    and "\<forall>t. clock s \<le> t \<and> t \<le> clock s + 5 + 1 / 1000 + eps \<longrightarrow> \<not> link e name t"
  shows "Monitors (camonitor e name writer cb s) name = Some None"
proof -
  have down: "\<not> link e name (clock (snd (createPV e name 5 s)))"
    using createPV_unreachable [OF assms(1,2,3), of 5] assms(4) by simp
  obtain r1 s1 where c: "createPV e name 5 s = (r1, s1)" by (cases "createPV e name 5 s")
  with createPV_miss_down(1) [OF assms(1) down] have "r1 = None" by simp
  with c show ?thesis by (simp add: camonitor_def)
qed

text \<open>
  What the source decides about a second \<open>camonitor\<close> on a name: for a name that is in
  \<open>_Cache\<close>, the registry entry is assigned the cached object again, \<open>_Cache\<close> stays as it
  was, and exactly two calls are made on the object, \<open>get()\<close> and \<open>add_callback\<close> with the new
  callback; \<open>clear_callbacks()\<close> is not called.
\<close>

lemma camonitor_cached_calls:
  assumes "Cache s name = Some h"
  shows "Monitors (camonitor e name writer cb s) name = Some (Some h)
       \<and> Cache (camonitor e name writer cb s) = Cache s
       \<and> calls (heap (camonitor e name writer cb s) h)
           = calls (heap s h)
             @ [Get, AddCallback (case cb of
                  None \<Rightarrow> GenericCallback (case writer of None \<Rightarrow> StdoutWrite | Some w \<Rightarrow> w)
                | Some c \<Rightarrow> UserCallback c)]"
  using assms
  by (simp add: camonitor_def createPV_cached pv_add_callback_def pv_get_def log_call_def Let_def)

section \<open>The claims\<close>

subsection \<open>C1: entries of the monitor registry\<close>

text \<open>
  C1 says that a name present in \<open>_Monitors\<close> after \<open>camonitor\<close> is mapped to a real PV object
  with a callback attached, also when the resolution timed out. \<open>camonitor\<close> assigns
  \<open>_Monitors[pvname] = thispv\<close> before it tests \<open>thispv is not None\<close>: for a name whose channel
  never comes up, the registry then maps the name to \<open>None\<close>, an entry with no object and no
  callback.
\<close>

theorem camonitor_unreachable_registers_None:
  "Monitors (camonitor dead_env ''xx.VAL'' None None init_state) ''xx.VAL'' = Some None"
  by (rule camonitor_unreachable_entry [where eps = 0]) (simp_all add: init_state_def dead_env_def)

subsection \<open>C2: an unreachable name gives None and one diagnostic line\<close>



subsection \<open>C3: resolving a name twice\<close>




subsection \<open>C4: only a successful resolution is cached\<close>



subsection \<open>C5: clearing a monitor\<close>

text \<open>
  C5 says that \<open>camonitor_clear\<close> never raises. After \<open>camonitor\<close> on a name whose channel
  never comes up, the registry maps the name to \<open>None\<close>, and
  \<open>_Monitors[pvname].clear_callbacks()\<close> is then a method call on \<open>None\<close>: an AttributeError.
\<close>

theorem camonitor_clear_after_unreachable_raises:
  "camonitor_clear ''xx.VAL'' (camonitor dead_env ''xx.VAL'' None None init_state)
     = Inl AttributeError"
proof -
  have "Monitors (camonitor dead_env ''xx.VAL'' None None init_state) ''xx.VAL'' = Some None"
    by (rule camonitor_unreachable_entry [where eps = 0]) (simp_all add: init_state_def dead_env_def)
  then show ?thesis by (simp add: camonitor_clear_def)
qed

subsection \<open>C6: cainfo prints or returns\<close>

text \<open>
  C6: when the name resolves to an object, \<open>cainfo\<close> with \<open>print_out=True\<close> returns \<open>None\<close> and
  appends the object's info string, followed by a newline, to what was written to
  \<open>sys.stdout\<close>; with \<open>print_out=False\<close> it returns that same info string and writes
  nothing.
\<close>

theorem cainfo_print_xor_return:
  assumes "createPV e name 5 s = (Some h, s1)"
  shows "fst (cainfo e name True s) = PyNone
       \<and> stdout (snd (cainfo e name True s)) = stdout s @ [pv_info e h s1 @ newline]
       \<and> fst (cainfo e name False s) = PyStr (pv_info e h s1)
       \<and> stdout (snd (cainfo e name False s)) = stdout s"
proof -
  have "stdout s1 = stdout s"
    using createPV_Some_stdout [of e name 5 s h] assms by simp
  with assms show ?thesis
    by (simp add: cainfo_def pv_get_def pv_get_ctrlvars_def log_call_def pv_info_def
        write_stdout_def)
qed

theorem cainfo_print_xor_return_witness:
  "fst (cainfo live_env ''xx.VAL'' True init_state) = PyNone
   \<and> stdout (snd (cainfo live_env ''xx.VAL'' True init_state)) = [''== xx.VAL'' @ newline]
   \<and> fst (cainfo live_env ''xx.VAL'' False init_state) = PyStr ''== xx.VAL''
   \<and> stdout (snd (cainfo live_env ''xx.VAL'' False init_state)) = []"
  using cainfo_print_xor_return [OF createPV_live_init]
  by (simp add: pv_info_def init_state_def live_env_def dead_env_def)

subsection \<open>C7: caget passes the value through\<close>

text \<open>
  C7: when the name resolves to an object, \<open>caget\<close> with \<open>as_string=False\<close> returns what the
  object's \<open>get()\<close> returned, and the only call made on the object is that \<open>get()\<close>; with
  \<open>as_string=True\<close> the calls made on the object are \<open>get()\<close>, one \<open>get_ctrlvars()\<close> and
  \<open>get(as_string=True)\<close>, in this order, and the result is the string of the last call,
  which is made after the two sleeps of a millisecond.
\<close>

theorem caget_pass_through:
  assumes "createPV e name 5 s = (Some h, s1)"
  shows "fst (caget e name False s) = fst (pv_get e h False s1)
       \<and> calls (heap (snd (caget e name False s)) h) = calls (heap s1 h) @ [Get]
       \<and> fst (caget e name True s)
           = PyStr (get_string e (pv_name (heap s1 h))
                      (clock (sleep e (1 / 1000) (sleep e (1 / 1000) s1))))
       \<and> calls (heap (snd (caget e name True s)) h)
           = calls (heap s1 h) @ [Get, GetCtrlvars, GetAsString]"
  using assms
  by (simp add: caget_def pv_get_def pv_get_ctrlvars_def log_call_def sleep_def)

theorem caget_pass_through_witness:
  "fst (caget live_env ''xx.VAL'' False init_state) = PyInt 0
   \<and> calls (heap (snd (caget live_env ''xx.VAL'' False init_state)) 0) = [Connect, Get]
   \<and> fst (caget live_env ''xx.VAL'' True init_state) = PyStr ''0''
   \<and> calls (heap (snd (caget live_env ''xx.VAL'' True init_state)) 0)
       = [Connect, Get, GetCtrlvars, GetAsString]"
  using caget_pass_through [OF createPV_live_init]
  by (simp add: pv_get_def init_state_def live_env_def dead_env_def)

subsection \<open>C8: the polling wait is bounded\<close>

text \<open>
  C8: take a name that is not cached and whose channel stays down, and a timeout that is not
  negative. The resolution returns \<open>None\<close> (the loop is a total function: it always ends).
  The time that has passed when it returns is more than the timeout and at most the timeout
  plus one polling interval. A polling interval is one \<open>time.sleep(1.e-3)\<close>: the millisecond
  asked for and the overshoot of the sleep, which the environment decides and \<open>eps\<close> bounds.
  With exact sleeps (\<open>eps = 0\<close>) the bound is the timeout plus one millisecond.
\<close>

theorem createPV_timeout_bound:
  assumes "Cache s name = None" and "0 \<le> tmo"
    and "0 \<le> eps" and "\<forall>t. oversleep e t \<le> eps"
    and "\<forall>t. clock s \<le> t \<and> t \<le> clock s + tmo + 1 / 1000 + eps \<longrightarrow> \<not> link e name t"
  shows "fst (createPV e name tmo s) = None
       \<and> tmo < clock (snd (createPV e name tmo s)) - clock s
       \<and> clock (snd (createPV e name tmo s)) - clock s \<le> tmo + (1 / 1000 + eps)"
proof -
  have m: "max 0 tmo = tmo" using assms(2) by simp
  have down: "\<not> link e name (clock (snd (createPV e name tmo s)))"
    using createPV_unreachable [OF assms(1,3,4), of tmo] assms(5) by (simp add: m)
  from createPV_miss_down(1,4) [OF assms(1) down]
    createPV_miss_clock(2) [OF assms(1,3,4), of tmo]
  show ?thesis by (simp add: m)
qed

theorem createPV_timeout_bound_witness:
  "fst (createPV slow_env ''xx.VAL'' 5 init_state) = None
   \<and> 5 < clock (snd (createPV slow_env ''xx.VAL'' 5 init_state))
   \<and> clock (snd (createPV slow_env ''xx.VAL'' 5 init_state)) \<le> 5 + (1 / 1000 + 14 / 1000)"
  using createPV_timeout_bound [of init_state "''xx.VAL''" 5 "14 / 1000" slow_env]
  by (simp add: init_state_def slow_env_def dead_env_def)

subsection \<open>C10: the line written by the generic callback\<close>

text \<open>
  C10: called with a name, the generic monitor callback hands its writer one string: the
  first 32 characters of the name at most, a space, the time stamp, a space, the formatted
  value (or \<open>repr\<close> of the raw value when no formatted value is supplied) and a newline. With
  the default writer the string is appended to what was written to \<open>sys.stdout\<close>, with a
  writer of the caller's to what that writer received.
\<close>

theorem generic_callback_line:
  "stdout (generic_callback e StdoutWrite (Some name) v char_value s)
     = stdout s @ [take 32 name @ '' '' @ fmt_time e (clock s) @ '' ''
                   @ (case char_value of None \<Rightarrow> repr e v | Some txt \<Rightarrow> txt) @ newline]
   \<and> sinks (generic_callback e (UserWriter i) (Some name) v char_value s) i
     = sinks s i @ [take 32 name @ '' '' @ fmt_time e (clock s) @ '' ''
                    @ (case char_value of None \<Rightarrow> repr e v | Some txt \<Rightarrow> txt) @ newline]
   \<and> length (take 32 name) \<le> 32"
  by (simp add: generic_callback_def call_writer_def write_stdout_def str_of_def)

end
